theory Spec2Isabelle
  imports Complex_Main
begin

section \<open>Values of the JavaScript side\<close>

text \<open>
  A JavaScript string is a sequence of UTF-16 code units; a code unit is kept as a natural
  number. \<open>js\<close> embeds a literal of the source whose characters are all below 256.
  Coordinates, expression values and the threshold are numbers kept as reals.
\<close>

type_synonym jsstring = "nat list"
type_synonym number = real
type_synonym uuid = nat

definition js :: "string \<Rightarrow> jsstring" where
  "js s = map of_char s"

text \<open>The check mark U+2713 that opens the titles of the success toasts.\<close>

definition check_mark :: jsstring where
  "check_mark = [10003, 32]"

text \<open>
  \<open>String.prototype.trim\<close> removes the white space and line terminator code units of
  ECMAScript from both ends.
\<close>

definition is_white_space :: "nat \<Rightarrow> bool" where
  "is_white_space c =
     (c \<in> set [9, 10, 11, 12, 13, 32, 160, 5760, 8232, 8233, 8239, 8287, 12288, 65279]
      \<or> (8192 \<le> c \<and> c \<le> 8202))"

definition trim :: "jsstring \<Rightarrow> jsstring" where
  "trim s = rev (dropWhile is_white_space (rev (dropWhile is_white_space s)))"

text \<open>
  An entry of a descriptor is a number that may fail to be finite. A finite entry is kept
  as the real it denotes: widening a float32 to a double is exact, and rounding a double
  that is the value of a float32 gives that float32 back, so on the entries that come out
  of a \<open>Float32Array\<close> neither conversion changes the value. The sign of zero is not
  represented.
\<close>

datatype jsnumber = Number real | NaN | PosInfinity | NegInfinity

type_synonym Float32Array = "jsnumber list"

fun is_finite :: "jsnumber \<Rightarrow> bool" where
  "is_finite (Number r) = True"
| "is_finite NaN = False"
| "is_finite PosInfinity = False"
| "is_finite NegInfinity = False"

text \<open>\<open>Array.from\<close> on a typed array: a new array with the same entries in the same order.\<close>

definition Array_from :: "Float32Array \<Rightarrow> jsnumber list" where
  "Array_from d = map (\<lambda>v. v) d"

text \<open>
  A request travels as JSON text and the column is JSONB. \<open>JSON.stringify\<close> writes a
  finite number as a number and \<open>NaN\<close> or an infinity as \<open>null\<close>. Reading an array back
  into \<open>new Float32Array(...)\<close> applies ToNumber to each entry, and ToNumber of \<open>null\<close>
  is 0.
\<close>

datatype json = JNumber real | JNull

fun JSON_number :: "jsnumber \<Rightarrow> json" where
  "JSON_number (Number r) = JNumber r"
| "JSON_number NaN = JNull"
| "JSON_number PosInfinity = JNull"
| "JSON_number NegInfinity = JNull"

fun ToNumber :: "json \<Rightarrow> jsnumber" where
  "ToNumber (JNumber r) = Number r"
| "ToNumber JNull = Number 0"

definition Float32Array_new :: "json list \<Rightarrow> Float32Array" where
  "Float32Array_new xs = map ToNumber xs"

section \<open>The faces table and its row-level policies (the migration)\<close>

text \<open>
  One row of \<open>public.faces\<close>. The JSONB column \<open>descriptor\<close> holds the array the client
  sent; the client reads it back as \<open>number[]\<close>. The column itself puts no constraint on
  its content.
\<close>

record faces_row =
  face_id :: uuid
  user_id :: uuid
  name :: jsstring
  descriptor :: "json list"
  image_url :: "jsstring option"
  created_at :: nat
  updated_at :: nat

datatype command = SELECT | INSERT | UPDATE | DELETE

text \<open>
  The expression \<open>auth.uid() = user_id\<close> shared by the four policies. \<open>auth.uid()\<close> is
  NULL for a request without an authenticated identity, and a comparison with NULL does
  not pass a policy.
\<close>

definition auth_uid_eq_user_id :: "uuid option \<Rightarrow> faces_row \<Rightarrow> bool" where
  "auth_uid_eq_user_id a r = (case a of None \<Rightarrow> False | Some u \<Rightarrow> u = user_id r)"

text \<open>
  The four policies, one per command: "Users can view / insert / update / delete their own
  faces". Row level security is enabled, so a command is allowed on a row exactly when its
  policy passes. The UPDATE policy has no WITH CHECK of its own, so its USING expression
  is applied to the updated row as well.
\<close>

fun permits :: "command \<Rightarrow> uuid option \<Rightarrow> faces_row \<Rightarrow> bool" where
  "permits SELECT a r = auth_uid_eq_user_id a r"
| "permits INSERT a r = auth_uid_eq_user_id a r"
| "permits UPDATE a r = auth_uid_eq_user_id a r"
| "permits DELETE a r = auth_uid_eq_user_id a r"

type_synonym policy = "command \<Rightarrow> uuid option \<Rightarrow> faces_row \<Rightarrow> bool"

text \<open>
  The four commands on the table under a policy \<open>pol\<close>; \<open>wh\<close> is the WHERE clause of
  the statement. An INSERT or UPDATE whose new row fails the check is rejected as a whole
  (\<open>None\<close>). The trigger \<open>update_faces_updated_at\<close> stamps every updated row.
\<close>

definition table_select :: "policy \<Rightarrow> uuid option \<Rightarrow> (faces_row \<Rightarrow> bool) \<Rightarrow> faces_row list \<Rightarrow> faces_row list" where
  "table_select pol a wh tbl = filter (\<lambda>r. pol SELECT a r \<and> wh r) tbl"

definition table_insert :: "policy \<Rightarrow> uuid option \<Rightarrow> faces_row \<Rightarrow> faces_row list \<Rightarrow> faces_row list option" where
  "table_insert pol a r tbl = (if pol INSERT a r then Some (tbl @ [r]) else None)"

definition update_updated_at_column :: "nat \<Rightarrow> faces_row \<Rightarrow> faces_row" where
  "update_updated_at_column t r = r\<lparr>updated_at := t\<rparr>"

definition table_update ::
  "policy \<Rightarrow> uuid option \<Rightarrow> (faces_row \<Rightarrow> bool) \<Rightarrow> (faces_row \<Rightarrow> faces_row) \<Rightarrow> nat \<Rightarrow> faces_row list
     \<Rightarrow> faces_row list option" where
  "table_update pol a wh upd t tbl =
     (let hit = (\<lambda>r. pol UPDATE a r \<and> wh r);
          new = (\<lambda>r. update_updated_at_column t (upd r))
      in if list_all (pol UPDATE a) (map new (filter hit tbl))
         then Some (map (\<lambda>r. if hit r then new r else r) tbl)
         else None)"

definition table_delete :: "policy \<Rightarrow> uuid option \<Rightarrow> (faces_row \<Rightarrow> bool) \<Rightarrow> faces_row list \<Rightarrow> faces_row list" where
  "table_delete pol a wh tbl = filter (\<lambda>r. \<not> (pol DELETE a r \<and> wh r)) tbl"

text \<open>The rows of the table that belong to one user.\<close>

definition rows_of :: "uuid \<Rightarrow> faces_row list \<Rightarrow> faces_row list" where
  "rows_of v tbl = filter (\<lambda>r. user_id r = v) tbl"

section \<open>The hosted backend as the client reaches it\<close>

text \<open>
  The three queries the component builds: \<open>select('*').eq('user_id', u).order('created_at',
  {ascending: false})\<close>, \<open>insert({user_id, name, descriptor})\<close> and \<open>delete().eq('id', i)\<close>.
  Every select of the component carries the ordering, so it is part of \<open>Select\<close>.
\<close>

datatype eq_filter = Eq_user_id uuid | Eq_id uuid

fun matches :: "eq_filter \<Rightarrow> faces_row \<Rightarrow> bool" where
  "matches (Eq_user_id u) r = (user_id r = u)"
| "matches (Eq_id i) r = (face_id r = i)"

datatype request =
    Select "eq_filter list"
  | Insert uuid jsstring "jsnumber list"
  | Delete "eq_filter list"

record js_error =
  message :: jsstring

record response =
  data :: "faces_row list option"
  error :: "js_error option"

text \<open>
  The database: the table, the two column defaults \<open>uuid_generate_v4()\<close> and \<open>NOW()\<close>,
  whose next values are part of the state, and the order in which the server returns rows
  that the ORDER BY of a query leaves tied, which SQL does not fix.
\<close>

record database =
  faces :: "faces_row list"
  next_uuid :: uuid
  now :: nat
  tie_order :: "faces_row \<Rightarrow> nat"

type_synonym backend = "uuid option \<Rightarrow> request \<Rightarrow> database \<Rightarrow> response \<times> database"

text \<open>The error of a rejected insert; the table name is in double quotes (code unit 34).\<close>

definition rls_violation :: js_error where
  "rls_violation =
     \<lparr>message = js ''new row violates row-level security policy for table '' @ [34] @ js ''faces'' @ [34]\<rparr>"

text \<open>
  \<open>ORDER BY created_at DESC\<close>: a stable sort on the descending key of the rows as the
  server would return them otherwise.
\<close>

definition order_by_created_at_desc :: "(faces_row \<Rightarrow> nat) \<Rightarrow> faces_row list \<Rightarrow> faces_row list" where
  "order_by_created_at_desc tie rows = sort_key (\<lambda>r. - int (created_at r)) (sort_key tie rows)"

text \<open>
  The three requests on the table. The descriptor of an insert is stored as the JSON the
  request carries.
\<close>

fun run_request :: "policy \<Rightarrow> backend" where
  "run_request pol a (Select fs) db =
     (\<lparr>data = Some (order_by_created_at_desc (tie_order db)
                 (table_select pol a (\<lambda>r. list_all (\<lambda>f. matches f r) fs) (faces db))),
       error = None\<rparr>, db)"
| "run_request pol a (Insert u n d) db =
     (case table_insert pol a
             \<lparr>face_id = next_uuid db, user_id = u, name = n, descriptor = map JSON_number d,
              image_url = None, created_at = now db, updated_at = now db\<rparr> (faces db) of
        None \<Rightarrow> (\<lparr>data = None, error = Some rls_violation\<rparr>, db)
      | Some tbl \<Rightarrow>
          (\<lparr>data = None, error = None\<rparr>, db\<lparr>faces := tbl, next_uuid := Suc (next_uuid db)\<rparr>))"
| "run_request pol a (Delete fs) db =
     (\<lparr>data = None, error = None\<rparr>,
      db\<lparr>faces := table_delete pol a (\<lambda>r. list_all (\<lambda>f. matches f r) fs) (faces db)\<rparr>)"

text \<open>The backend of the migration, and the same table with row level security left off.\<close>

definition supabase :: backend where
  "supabase = run_request permits"

definition without_rls :: backend where
  "without_rls = run_request (\<lambda>c a r. True)"

section \<open>The component FaceDetectionAdvanced\<close>

datatype Session = Session (session_user_id: uuid)

type_synonym MediaStream = "nat list"

record video =
  srcObject :: "MediaStream option"
  videoWidth :: nat
  videoHeight :: nat

record canvas =
  canvas_width :: nat
  canvas_height :: nat
  has_2d_context :: bool

text \<open>
  The values of \<open>useState\<close> and \<open>useRef\<close>. At run time an entry of \<open>savedFaces\<close> is the
  whole row (\<open>{...face, descriptor: face.descriptor as number[]}\<close>), so it keeps the row
  type. A media stream is the list of its tracks.
\<close>

record component =
  isModelLoaded :: bool
  isCameraOn :: bool
  faceCount :: nat
  isDetecting :: bool
  currentEmotion :: jsstring
  matchedFace :: jsstring
  savedFaces :: "faces_row list"
  faceName :: jsstring
  showSaveInput :: bool
  session :: "Session option"
  streamRef :: "MediaStream option"
  currentDescriptorRef :: "Float32Array option"
  videoRef :: "video option"
  canvasRef :: "canvas option"

text \<open>The initial values given to \<open>useState\<close> and \<open>useRef\<close>.\<close>

definition initial_component :: component where
  "initial_component =
     \<lparr>isModelLoaded = False, isCameraOn = False, faceCount = 0, isDetecting = False,
      currentEmotion = [], matchedFace = [], savedFaces = [], faceName = [],
      showSaveInput = False, session = None, streamRef = None, currentDescriptorRef = None,
      videoRef = None, canvasRef = None\<rparr>"

datatype variant = Default | Destructive

datatype canvas_op =
    StrokeStyle jsstring
  | LineWidth number
  | StrokeRect number number number number
  | BeginPath
  | MoveTo number number
  | LineTo number number
  | Stroke

text \<open>What a handler does to the world outside the component, in the order it does it.\<close>

datatype event =
    Toast jsstring jsstring variant
  | ConsoleError jsstring js_error
  | Request "uuid option" request
  | TrackStop nat
  | DetectAllFaces
  | MatchDimensions nat nat
  | ClearRect number number number number
  | ResizeResults
  | FindBestMatch "(jsstring \<times> Float32Array list) list" number Float32Array
  | Draw canvas_op
  | RequestAnimationFrame

text \<open>The identity the client library attaches to a request: that of the session.\<close>

definition auth_uid :: "component \<Rightarrow> uuid option" where
  "auth_uid s = map_option session_user_id (session s)"

text \<open>\<open>loadModels\<close>, given what \<open>Promise.all\<close> of the four \<open>loadFromUri\<close> calls threw, if anything.\<close>

definition loadModels :: "js_error option \<Rightarrow> component \<Rightarrow> component \<times> event list" where
  "loadModels thrown s =
     (case thrown of
        None \<Rightarrow>
          (s\<lparr>isModelLoaded := True\<rparr>,
           [Toast (check_mark @ js ''AI Model Loaded'')
                  (js ''Face detection ready with emotion & recognition'') Default])
      | Some e \<Rightarrow>
          (s, [ConsoleError (js ''Error loading models:'') e,
               Toast (js ''Model Loading Failed'') (js ''Please refresh the page'') Destructive]))"

text \<open>
  The handlers that talk to the backend take it as a parameter and pass the database along:
  each returns the component state, the database and the trace. A handler started from the
  page reads the values of the current render, so one state serves for reading and writing.
\<close>

definition loadSavedFaces :: "backend \<Rightarrow> component \<Rightarrow> database \<Rightarrow> component \<times> database \<times> event list" where
  "loadSavedFaces be s db =
     (case session s of
        None \<Rightarrow> (s, db, [])
      | Some sess \<Rightarrow>
          (let q = Select [Eq_user_id (session_user_id sess)];
               (resp, db') = be (auth_uid s) q db
           in case error resp of
                Some e \<Rightarrow> (s, db', [Request (auth_uid s) q, ConsoleError (js ''Error loading faces:'') e])
              | None \<Rightarrow>
                  (case data resp of
                     None \<Rightarrow> (s, db', [Request (auth_uid s) q])
                   | Some rows \<Rightarrow> (s\<lparr>savedFaces := rows\<rparr>, db', [Request (auth_uid s) q]))))"

definition stopCamera :: "component \<Rightarrow> component \<times> event list" where
  "stopCamera s =
     (let stopped = (case streamRef s of None \<Rightarrow> [] | Some tracks \<Rightarrow> map TrackStop tracks);
          s1 = s\<lparr>streamRef := None\<rparr>;
          s2 = s1\<lparr>videoRef := map_option (\<lambda>v. v\<lparr>srcObject := None\<rparr>) (videoRef s1)\<rparr>
      in (s2\<lparr>isCameraOn := False, isDetecting := False, faceCount := 0,
              currentEmotion := [], matchedFace := []\<rparr>, stopped))"

definition handleSaveFace :: "backend \<Rightarrow> component \<Rightarrow> database \<Rightarrow> component \<times> database \<times> event list" where
  "handleSaveFace be s db =
     (case session s of
        None \<Rightarrow>
          (s, db, [Toast (js ''Authentication Required'') (js ''Please sign in to save faces'') Destructive])
      | Some sess \<Rightarrow>
     (case currentDescriptorRef s of
        None \<Rightarrow>
          (s, db, [Toast (js ''No Face Detected'')
                         (js ''Please position your face in front of the camera'') Destructive])
      | Some d \<Rightarrow>
      if trim (faceName s) = [] then
          (s, db, [Toast (js ''Name Required'') (js ''Please enter a name for this face'') Destructive])
      else
        (let q = Insert (session_user_id sess) (faceName s) (Array_from d);
             (resp, db1) = be (auth_uid s) q db
         in case error resp of
              Some e \<Rightarrow>
                (s, db1, [Request (auth_uid s) q, ConsoleError (js ''Error saving face:'') e,
                          Toast (js ''Save Failed'') (message e) Destructive])
            | None \<Rightarrow>
                (let saved = Toast (check_mark @ js ''Face Saved'')
                                   (faceName s @ js '' has been saved successfully'') Default;
                     (s2, db2, evs) = loadSavedFaces be (s\<lparr>faceName := [], showSaveInput := False\<rparr>) db1
                 in (s2, db2, [Request (auth_uid s) q, saved] @ evs)))))"

definition handleDeleteFace :: "backend \<Rightarrow> component \<Rightarrow> database \<Rightarrow> uuid \<Rightarrow> component \<times> database \<times> event list" where
  "handleDeleteFace be s db i =
     (let q = Delete [Eq_id i];
          (resp, db1) = be (auth_uid s) q db
      in case error resp of
           Some e \<Rightarrow>
             (s, db1, [Request (auth_uid s) q, ConsoleError (js ''Error deleting face:'') e,
                       Toast (js ''Delete Failed'') (message e) Destructive])
         | None \<Rightarrow>
             (let (s2, db2, evs) = loadSavedFaces be s db1
              in (s2, db2, [Request (auth_uid s) q,
                            Toast (check_mark @ js ''Face Deleted'') (js ''Face removed successfully'') Default]
                           @ evs)))"

section \<open>The per-frame loop\<close>

record box =
  box_x :: number
  box_y :: number
  box_width :: number
  box_height :: number

text \<open>
  One result of the \<open>detectAllFaces\<close> chain: \<open>detection.box\<close>, \<open>expressions\<close> and
  \<open>descriptor\<close>. \<open>expressions\<close> holds the entries of the library's expression object in
  the order of \<open>Object.entries\<close>; the object always has its entries, so the list is kept
  non-empty by its type, as the first entry and the others.
\<close>

record detection =
  detection_box :: box
  expressions :: "(jsstring \<times> number) \<times> (jsstring \<times> number) list"
  det_descriptor :: Float32Array

text \<open>
  The \<open>reduce\<close> that picks the dominant emotion: it keeps the left entry only where its
  value is strictly greater. The keys of an object are distinct, so looking a key up again
  gives the value of its entry.
\<close>

definition maxExpression :: "(jsstring \<times> number) \<times> (jsstring \<times> number) list \<Rightarrow> jsstring \<times> number" where
  "maxExpression es = foldl (\<lambda>a b. if snd a > snd b then a else b) (fst es) (snd es)"

text \<open>
  The library functions the loop applies to its data. \<open>resizeResults\<close> scales the
  detections to the display size; the matcher stands for \<open>new FaceMatcher(labelled,
  threshold).findBestMatch(query).label\<close>. Either may throw, which is the result
  \<open>None\<close>.
\<close>

type_synonym resizer = "detection list \<Rightarrow> nat \<times> nat \<Rightarrow> detection list option"
type_synonym matcher = "(jsstring \<times> Float32Array list) list \<Rightarrow> number \<Rightarrow> Float32Array \<Rightarrow> jsstring option"

definition cornerSize :: number where
  "cornerSize = 20"

text \<open>The strokes for one detection: outer glow, main box, four corner accents.\<close>

definition drawBox :: "box \<Rightarrow> canvas_op list" where
  "drawBox b =
     [StrokeStyle (js ''rgba(34, 211, 238, 0.3)''), LineWidth 8,
      StrokeRect (box_x b - 4) (box_y b - 4) (box_width b + 8) (box_height b + 8),
      StrokeStyle (js ''#22d3ee''), LineWidth 2,
      StrokeRect (box_x b) (box_y b) (box_width b) (box_height b),
      StrokeStyle (js ''#a855f7''), LineWidth 3,
      BeginPath,
      MoveTo (box_x b) (box_y b + cornerSize),
      LineTo (box_x b) (box_y b),
      LineTo (box_x b + cornerSize) (box_y b),
      Stroke,
      BeginPath,
      MoveTo (box_x b + box_width b - cornerSize) (box_y b),
      LineTo (box_x b + box_width b) (box_y b),
      LineTo (box_x b + box_width b) (box_y b + cornerSize),
      Stroke,
      BeginPath,
      MoveTo (box_x b) (box_y b + box_height b - cornerSize),
      LineTo (box_x b) (box_y b + box_height b),
      LineTo (box_x b + cornerSize) (box_y b + box_height b),
      Stroke,
      BeginPath,
      MoveTo (box_x b + box_width b - cornerSize) (box_y b + box_height b),
      LineTo (box_x b + box_width b) (box_y b + box_height b),
      LineTo (box_x b + box_width b) (box_y b + box_height b - cornerSize),
      Stroke]"

text \<open>
  The labelled descriptors built from the saved faces: one label per face, with the stored
  array read into a new \<open>Float32Array\<close>.
\<close>

definition labelledDescriptors :: "faces_row list \<Rightarrow> (jsstring \<times> Float32Array list) list" where
  "labelledDescriptors fs = map (\<lambda>f. (name f, [Float32Array_new (descriptor f)])) fs"

text \<open>
  The block "Process emotions and face matching". \<open>c\<close> is the render whose values the
  closure reads (\<open>savedFaces\<close>, \<open>session\<close>); the setters and the ref act on the current
  state \<open>s\<close>. The flag tells whether the block ran to its end: when the matcher throws,
  the emotion and the ref are already set and \<open>setMatchedFace\<close> is not reached.
\<close>

definition processEmotionAndMatch ::
  "matcher \<Rightarrow> component \<Rightarrow> component \<Rightarrow> detection list \<Rightarrow> component \<times> event list \<times> bool" where
  "processEmotionAndMatch findBestMatch c s resized =
     (case resized of
        [] \<Rightarrow> (s\<lparr>currentEmotion := [], matchedFace := [], currentDescriptorRef := None\<rparr>, [], True)
      | d # rest \<Rightarrow>
          (let s1 = s\<lparr>currentEmotion := fst (maxExpression (expressions d)),
                      currentDescriptorRef := Some (det_descriptor d)\<rparr>
           in if savedFaces c \<noteq> [] \<and> session c \<noteq> None then
                (let labelled = labelledDescriptors (savedFaces c)
                 in case findBestMatch labelled (6 / 10) (det_descriptor d) of
                      None \<Rightarrow> (s1, [FindBestMatch labelled (6 / 10) (det_descriptor d)], False)
                    | Some label \<Rightarrow>
                        (s1\<lparr>matchedFace := (if label \<noteq> js ''unknown'' then label else [])\<rparr>,
                         [FindBestMatch labelled (6 / 10) (det_descriptor d)], True))
              else (s1, [], True)))"

text \<open>
  One call of \<open>detectFaces\<close>, given what the \<open>detectAllFaces\<close> chain gives for the
  current frame: the detections, or \<open>None\<close> when it throws. The function is async and
  has no \<open>try\<close>, so a library call that throws ends the call at that point: what was set
  before stays set, and neither the strokes, nor \<open>setFaceCount\<close>, nor
  \<open>requestAnimationFrame\<close> follow. \<open>matchDimensions\<close> gives the canvas the size of the
  video.
\<close>

definition detectFaces ::
  "resizer \<Rightarrow> matcher \<Rightarrow> component \<Rightarrow> component \<Rightarrow> detection list option \<Rightarrow> component \<times> event list" where
  "detectFaces resizeResults findBestMatch c s detected =
     (case videoRef s of
        None \<Rightarrow> (s, [])
      | Some v \<Rightarrow>
     (case canvasRef s of
        None \<Rightarrow> (s, [])
      | Some cv \<Rightarrow>
      if \<not> isCameraOn c then (s, [])
      else
     (case detected of
        None \<Rightarrow> (s, [DetectAllFaces])
      | Some detections \<Rightarrow>
        (let w = videoWidth v;
             h = videoHeight v;
             cv1 = cv\<lparr>canvas_width := w, canvas_height := h\<rparr>;
             clear = (if has_2d_context cv1
                      then [ClearRect 0 0 (real (canvas_width cv1)) (real (canvas_height cv1))]
                      else []);
             begun = [DetectAllFaces, MatchDimensions w h] @ clear @ [ResizeResults];
             s0 = s\<lparr>canvasRef := Some cv1\<rparr>
         in case resizeResults detections (w, h) of
              None \<Rightarrow> (s0, begun)
            | Some resized \<Rightarrow>
                (let (s1, matching, through) = processEmotionAndMatch findBestMatch c s0 resized;
                     boxes = concat (map (\<lambda>d. if has_2d_context cv1
                                                then map Draw (drawBox (detection_box d)) else [])
                                         resized);
                     again = (if isCameraOn c then [RequestAnimationFrame] else [])
                 in if \<not> through then (s1, begun @ matching)
                    else (s1\<lparr>faceCount := length detections\<rparr>, begun @ matching @ boxes @ again))))))"

text \<open>
  The loop: \<open>requestAnimationFrame(detectFaces)\<close> calls the same closure again, so \<open>c\<close>
  stays the same from call to call while the state moves on. The list holds what the
  library gives for the successive frames; the loop goes on as long as a call asks for the
  next frame.
\<close>

fun detectLoop ::
  "resizer \<Rightarrow> matcher \<Rightarrow> component \<Rightarrow> component \<Rightarrow> detection list option list \<Rightarrow> component \<times> event list" where
  "detectLoop resizeResults findBestMatch c s [] = (s, [])"
| "detectLoop resizeResults findBestMatch c s (f # fs) =
     (let (s1, evs) = detectFaces resizeResults findBestMatch c s f
      in if RequestAnimationFrame \<in> set evs
         then (let (s2, evs2) = detectLoop resizeResults findBestMatch c s1 fs in (s2, evs @ evs2))
         else (s1, evs))"

section \<open>Starting the camera\<close>

text \<open>
  \<open>startDetection\<close> of the render \<open>c\<close>: it creates \<open>detectFaces\<close>, which closes over the
  values of \<open>c\<close>, and makes the first call.
\<close>

definition startDetection ::
  "resizer \<Rightarrow> matcher \<Rightarrow> component \<Rightarrow> component \<Rightarrow> detection list option list \<Rightarrow> component \<times> event list" where
  "startDetection resizeResults findBestMatch c s frames =
     (if videoRef s = None \<or> canvasRef s = None \<or> \<not> isModelLoaded c then (s, [])
      else detectLoop resizeResults findBestMatch c (s\<lparr>isDetecting := True\<rparr>) frames)"

text \<open>
  \<open>startCamera\<close>, given what \<open>getUserMedia\<close> gives: an error it throws, or the stream.
  The flag tells whether \<open>onloadedmetadata\<close> was set; the handler it is set to calls the
  \<open>startDetection\<close> of the render in which \<open>startCamera\<close> was called.
\<close>

definition startCamera :: "component \<Rightarrow> js_error + MediaStream \<Rightarrow> component \<times> event list \<times> bool" where
  "startCamera s got =
     (case got of
        Inl e \<Rightarrow>
          (s, [ConsoleError (js ''Error accessing camera:'') e,
               Toast (js ''Camera Access Denied'') (js ''Please allow camera access'') Destructive],
           False)
      | Inr stream \<Rightarrow>
          (case videoRef s of
             None \<Rightarrow> (s, [], False)
           | Some v \<Rightarrow>
               (s\<lparr>videoRef := Some (v\<lparr>srcObject := Some stream\<rparr>), streamRef := Some stream,
                  isCameraOn := True\<rparr>, [], True)))"

text \<open>
  \<open>toggleCamera\<close> of the render \<open>s\<close>, followed through: the click, the stream, the
  metadata event of the video and the frames that follow it. The button calls the
  \<open>toggleCamera\<close> of the current render, so the render and the state are one; the
  \<open>startDetection\<close> that runs on the metadata event is the one of that same render.
\<close>

definition toggleCamera ::
  "resizer \<Rightarrow> matcher \<Rightarrow> component \<Rightarrow> js_error + MediaStream \<Rightarrow> detection list option list
     \<Rightarrow> component \<times> event list" where
  "toggleCamera resizeResults findBestMatch s got frames =
     (if isCameraOn s then stopCamera s
      else
        (let (s1, evs, handler_set) = startCamera s got
         in if handler_set
            then (let (s2, evs2) = startDetection resizeResults findBestMatch s s1 frames
                  in (s2, evs @ evs2))
            else (s1, evs)))"

section \<open>Reading a trace\<close>

text \<open>The descriptions of the toasts in a trace, and the requests in it with their identity.\<close>

fun toast_description :: "event \<Rightarrow> jsstring option" where
  "toast_description (Toast t d v) = Some d"
| "toast_description e = None"

definition toast_descriptions :: "event list \<Rightarrow> jsstring list" where
  "toast_descriptions evs = List.map_filter toast_description evs"

fun request_of :: "event \<Rightarrow> (uuid option \<times> request) option" where
  "request_of (Request a q) = Some (a, q)"
| "request_of e = None"

definition requests :: "event list \<Rightarrow> (uuid option \<times> request) list" where
  "requests evs = List.map_filter request_of evs"

text \<open>All stored, loaded and captured descriptors have \<open>n\<close> entries.\<close>

definition uniform_length :: "nat \<Rightarrow> component \<Rightarrow> database \<Rightarrow> bool" where
  "uniform_length n s db =
     (list_all (\<lambda>r. length (descriptor r) = n) (faces db) \<and>
      list_all (\<lambda>r. length (descriptor r) = n) (savedFaces s) \<and>
      (case currentDescriptorRef s of None \<Rightarrow> True | Some d \<Rightarrow> length d = n))"

section \<open>Sample data for the worked instances\<close>

definition row_a :: faces_row where
  "row_a = \<lparr>face_id = 10, user_id = 1, name = js ''Ann'', descriptor = [JNumber (1/2), JNumber (1/4)],
            image_url = None, created_at = 5, updated_at = 5\<rparr>"

definition row_b :: faces_row where
  "row_b = \<lparr>face_id = 11, user_id = 2, name = js ''Bob'', descriptor = [JNumber (3/4), JNumber (1/8)],
            image_url = None, created_at = 7, updated_at = 7\<rparr>"

definition ann_signed_in :: component where
  "ann_signed_in =
     initial_component\<lparr>isModelLoaded := True, isCameraOn := True, isDetecting := True,
       faceCount := 1, currentEmotion := js ''happy'',
       faceName := js ''Ann'', showSaveInput := True,
       session := Some (Session 1), streamRef := Some [0],
       currentDescriptorRef := Some [Number (1/2), Number (1/4), Number (1/8)],
       videoRef := Some \<lparr>srcObject = Some [0], videoWidth = 640, videoHeight = 480\<rparr>,
       canvasRef := Some \<lparr>canvas_width = 300, canvas_height = 150, has_2d_context = True\<rparr>\<rparr>"

definition db_ab :: database where
  "db_ab = \<lparr>faces = [row_a, row_b], next_uuid = 12, now = 9, tie_order = (\<lambda>r. 0)\<rparr>"

definition ann_with_faces :: component where
  "ann_with_faces = ann_signed_in\<lparr>savedFaces := [row_a]\<rparr>"

definition det_ann :: detection where
  "det_ann =
     \<lparr>detection_box = \<lparr>box_x = 100, box_y = 50, box_width = 200, box_height = 220\<rparr>,
      expressions = ((js ''neutral'', 1/10), [(js ''happy'', 8/10), (js ''sad'', 1/10)]),
      det_descriptor = [Number (1/2), Number (1/4)]\<rparr>"

text \<open>
  Stand-ins for the two library functions. The first does not scale and throws on a size
  with a zero side; the second throws when a stored array has another length than the
  query and otherwise matches on an equal array only.
\<close>

definition same_size :: resizer where
  "same_size ds sz = (if fst sz = 0 \<or> snd sz = 0 then None else Some ds)"

definition exact_matcher :: matcher where
  "exact_matcher labelled t q =
     (if list_ex (\<lambda>l. list_ex (\<lambda>d. length d \<noteq> length q) (snd l)) labelled then None
      else Some (case filter (\<lambda>l. q \<in> set (snd l)) labelled of [] \<Rightarrow> js ''unknown'' | l # ls \<Rightarrow> fst l))"

text \<open>The page with the models loaded and the camera off, before "Start Camera" is clicked.\<close>

definition ann_camera_off :: component where
  "ann_camera_off =
     initial_component\<lparr>isModelLoaded := True, session := Some (Session 1), savedFaces := [row_a],
       videoRef := Some \<lparr>srcObject = None, videoWidth = 640, videoHeight = 480\<rparr>,
       canvasRef := Some \<lparr>canvas_width = 300, canvas_height = 150, has_2d_context = True\<rparr>\<rparr>"

text \<open>A backend that cannot be reached: every request comes back with the same error.\<close>

definition fetch_failed :: js_error where
  "fetch_failed = \<lparr>message = js ''TypeError: Failed to fetch''\<rparr>"

definition offline :: backend where
  "offline a q db = (\<lparr>data = None, error = Some fetch_failed\<rparr>, db)"

section \<open>Evaluation of the worked instances\<close>

lemmas sample_defs = initial_component_def ann_signed_in_def db_ab_def row_a_def row_b_def
  ann_with_faces_def det_ann_def same_size_def exact_matcher_def fetch_failed_def offline_def
  ann_camera_off_def

lemmas run_defs = Let_def handleSaveFace_def handleDeleteFace_def loadSavedFaces_def supabase_def without_rls_def
  table_select_def table_insert_def table_delete_def auth_uid_def auth_uid_eq_user_id_def
  trim_def is_white_space_def js_def Array_from_def check_mark_def rls_violation_def
  detectFaces_def processEmotionAndMatch_def maxExpression_def drawBox_def cornerSize_def
  stopCamera_def loadModels_def toast_descriptions_def requests_def
  rows_of_def uniform_length_def order_by_created_at_desc_def labelledDescriptors_def
  Float32Array_new_def startCamera_def startDetection_def toggleCamera_def

section \<open>Row-level policies of the faces table\<close>

lemma permits_iff: "permits cmd a r = (a = Some (user_id r))"
  by (cases cmd; cases a) (auto simp: auth_uid_eq_user_id_def)

lemma rows_of_select: "u \<noteq> v \<Longrightarrow> rows_of v (table_select permits (Some u) wh tbl) = []"
  by (induction tbl) (auto simp: rows_of_def table_select_def permits_iff)

lemma rows_of_insert:
  "u \<noteq> v \<Longrightarrow> table_insert permits (Some u) r tbl = Some tbl' \<Longrightarrow> rows_of v tbl' = rows_of v tbl"
  by (auto simp: rows_of_def table_insert_def permits_iff split: if_splits)

lemma rows_of_delete: "u \<noteq> v \<Longrightarrow> rows_of v (table_delete permits (Some u) wh tbl) = rows_of v tbl"
  by (induction tbl) (auto simp: rows_of_def table_delete_def permits_iff)

lemma rows_of_update:
  "u \<noteq> v \<Longrightarrow> table_update permits (Some u) wh upd t tbl = Some tbl' \<Longrightarrow> rows_of v tbl' = rows_of v tbl"
proof -
  assume uv: "u \<noteq> v" and upd: "table_update permits (Some u) wh upd t tbl = Some tbl'"
  let ?hit = "\<lambda>r. permits UPDATE (Some u) r \<and> wh r"
  let ?new = "\<lambda>r. update_updated_at_column t (upd r)"
  from upd have chk: "list_all (permits UPDATE (Some u)) (map ?new (filter ?hit tbl))"
    and res: "tbl' = map (\<lambda>r. if ?hit r then ?new r else r) tbl"
    by (auto simp: table_update_def Let_def split: if_splits)
  from chk uv have "filter (\<lambda>r. user_id r = v) (map (\<lambda>r. if ?hit r then ?new r else r) tbl)
        = filter (\<lambda>r. user_id r = v) tbl"
    by (induction tbl) (auto simp: permits_iff)
  with res show ?thesis by (simp add: rows_of_def)
qed

text \<open>
  Claim C1. Each of the four policies lets an authenticated user \<open>u\<close> act on a row exactly
  when the row's \<open>user_id\<close> is \<open>u\<close>, and lets a request without identity act on no row.
  So for two distinct users \<open>u\<close> and \<open>v\<close>, whatever WHERE clause, new row or update \<open>u\<close>
  sends: a select by \<open>u\<close> returns no row of \<open>v\<close>, and an insert, update or delete by \<open>u\<close>
  leaves the rows of \<open>v\<close> as they were.
\<close>

theorem faces_policies_owner_only:
  "(permits cmd (Some u) r \<longleftrightarrow> user_id r = u) \<and>
   \<not> permits cmd None r \<and>
   (u \<noteq> v \<longrightarrow>
      rows_of v (table_select permits (Some u) wh tbl) = [] \<and>
      (\<forall>tbl'. table_insert permits (Some u) r tbl = Some tbl' \<longrightarrow> rows_of v tbl' = rows_of v tbl) \<and>
      (\<forall>tbl'. table_update permits (Some u) wh upd t tbl = Some tbl' \<longrightarrow> rows_of v tbl' = rows_of v tbl) \<and>
      rows_of v (table_delete permits (Some u) wh tbl) = rows_of v tbl)"
  using rows_of_select rows_of_insert rows_of_update rows_of_delete
  by (auto simp: permits_iff)


theorem faces_policies_owner_only_witness:
  "(1::nat) \<noteq> 2 \<and>
   permits DELETE (Some 1) row_a \<and> \<not> permits DELETE (Some 1) row_b \<and>
   rows_of 2 (table_select permits (Some 1) (\<lambda>r. True) [row_a, row_b]) = [] \<and>
   table_insert permits (Some 1) row_a [row_b] = Some [row_b, row_a] \<and>
   rows_of 2 [row_b, row_a] = rows_of 2 [row_b] \<and>
   table_update permits (Some 1) (\<lambda>r. True) (\<lambda>r. r\<lparr>name := js ''Zed''\<rparr>) 9 [row_a, row_b]
     = Some [row_a\<lparr>name := js ''Zed'', updated_at := 9\<rparr>, row_b] \<and>
   rows_of 2 [row_a\<lparr>name := js ''Zed'', updated_at := 9\<rparr>, row_b] = rows_of 2 [row_a, row_b] \<and>
   rows_of 2 (table_delete permits (Some 1) (\<lambda>r. True) [row_a, row_b]) = [row_b]"
  using faces_policies_owner_only [of DELETE 1 row_a 2 "\<lambda>r. True" "[row_a, row_b]"]
  by (simp add: row_a_def row_b_def rows_of_def table_select_def table_insert_def table_update_def
      table_delete_def update_updated_at_column_def auth_uid_eq_user_id_def js_def)

section \<open>Saving needs a session, a descriptor and a name\<close>

lemma processEmotionAndMatch_events:
  "fst (snd (processEmotionAndMatch fbm c s resized)) =
     (if resized \<noteq> [] \<and> savedFaces c \<noteq> [] \<and> session c \<noteq> None
      then [FindBestMatch (labelledDescriptors (savedFaces c)) (6 / 10) (det_descriptor (hd resized))]
      else [])"
  by (simp add: processEmotionAndMatch_def Let_def split: list.splits option.splits)

lemma detectFaces_events:
  "snd (detectFaces rz fbm c s dets) =
     (case videoRef s of None \<Rightarrow> [] | Some v \<Rightarrow>
      (case canvasRef s of None \<Rightarrow> [] | Some cv \<Rightarrow>
        if \<not> isCameraOn c then [] else
        (case dets of None \<Rightarrow> [DetectAllFaces] | Some ds \<Rightarrow>
          [DetectAllFaces, MatchDimensions (videoWidth v) (videoHeight v)]
          @ (if has_2d_context cv then [ClearRect 0 0 (real (videoWidth v)) (real (videoHeight v))] else [])
          @ [ResizeResults]
          @ (case rz ds (videoWidth v, videoHeight v) of None \<Rightarrow> [] | Some resized \<Rightarrow>
               (if resized \<noteq> [] \<and> savedFaces c \<noteq> [] \<and> session c \<noteq> None
                then [FindBestMatch (labelledDescriptors (savedFaces c)) (6 / 10)
                        (det_descriptor (hd resized))]
                else [])
               @ (if resized \<noteq> [] \<and> savedFaces c \<noteq> [] \<and> session c \<noteq> None \<and>
                     fbm (labelledDescriptors (savedFaces c)) (6 / 10) (det_descriptor (hd resized)) = None
                  then []
                  else (if has_2d_context cv
                        then concat (map (\<lambda>d. map Draw (drawBox (detection_box d))) resized)
                        else [])
                       @ [RequestAnimationFrame])))))"
proof -
  have nil: "\<And>xs :: detection list. concat (map (\<lambda>d. []) xs) = ([] :: event list)"
    by simp
  show ?thesis
    by (simp add: detectFaces_def processEmotionAndMatch_def Let_def nil
             split: option.splits list.splits)
qed

text \<open>
  Claim C2. Without a session \<open>handleSaveFace\<close> only shows the toast "Authentication
  Required": state and database are as before, so any request it sends comes from a
  component that has a session. And a call of \<open>detectFaces\<close> hands a descriptor to the
  matcher only when the session it reads is present.
\<close>

theorem save_and_match_need_session:
  "(session s = None \<longrightarrow>
      handleSaveFace be s db =
        (s, db, [Toast (js ''Authentication Required'') (js ''Please sign in to save faces'') Destructive])) \<and>
   (Request a q \<in> set (snd (snd (handleSaveFace be s db))) \<longrightarrow> session s \<noteq> None) \<and>
   (FindBestMatch l t d \<in> set (snd (detectFaces rz fbm c s' dets)) \<longrightarrow> session c \<noteq> None)"
proof (intro conjI impI)
  assume "session s = None"
  then show "handleSaveFace be s db =
        (s, db, [Toast (js ''Authentication Required'') (js ''Please sign in to save faces'') Destructive])"
    by (simp add: handleSaveFace_def)
next
  assume "Request a q \<in> set (snd (snd (handleSaveFace be s db)))"
  then show "session s \<noteq> None"
    by (cases "session s") (auto simp: handleSaveFace_def)
next
  assume m: "FindBestMatch l t d \<in> set (snd (detectFaces rz fbm c s' dets))"
  show "session c \<noteq> None"
  proof
    assume "session c = None"
    then have "FindBestMatch l t d \<notin> set (snd (detectFaces rz fbm c s' dets))"
      by (auto simp: detectFaces_events split: option.splits)
    with m show False by simp
  qed
qed

theorem save_and_match_need_session_witness:
  "session initial_component = None \<and>
   handleSaveFace supabase initial_component db_ab =
     (initial_component, db_ab,
      [Toast (js ''Authentication Required'') (js ''Please sign in to save faces'') Destructive]) \<and>
   Request (Some 1) (Insert 1 (js ''Ann'') [Number (1/2), Number (1/4), Number (1/8)])
     \<in> set (snd (snd (handleSaveFace supabase ann_signed_in db_ab))) \<and>
   session ann_signed_in \<noteq> None \<and>
   FindBestMatch [(js ''Ann'', [[Number (1/2), Number (1/4)]])] (6/10) [Number (1/2), Number (1/4)]
     \<in> set (snd (detectFaces same_size exact_matcher ann_with_faces ann_with_faces (Some [det_ann]))) \<and>
   session ann_with_faces \<noteq> None"
  using save_and_match_need_session [where s = initial_component and be = supabase and db = db_ab, THEN conjunct1]
    save_and_match_need_session [where s = ann_signed_in and be = supabase and db = db_ab
       and a = "Some 1" and q = "Insert 1 (js ''Ann'') [Number (1/2), Number (1/4), Number (1/8)]"
       and l = "[(js ''Ann'', [[Number (1/2), Number (1/4)]])]" and t = "6/10" and d = "[Number (1/2), Number (1/4)]"
       and rz = same_size and fbm = exact_matcher and c = ann_with_faces and s' = ann_with_faces
       and dets = "Some [det_ann]"]
  by (simp add: sample_defs run_defs)

text \<open>
  Claim C8. When there is no session, or no captured descriptor, or the face name is empty
  after trimming, \<open>handleSaveFace\<close> returns the component state and the database as they
  were and does nothing but show the toast of the first check that failed, whatever the
  backend is. When the three hold, the first thing it does is the insert request.
\<close>

theorem handleSaveFace_preconditions:
  "(session s = None \<or> currentDescriptorRef s = None \<or> trim (faceName s) = [] \<longrightarrow>
      handleSaveFace be s db =
        (s, db,
         [if session s = None then
            Toast (js ''Authentication Required'') (js ''Please sign in to save faces'') Destructive
          else if currentDescriptorRef s = None then
            Toast (js ''No Face Detected'') (js ''Please position your face in front of the camera'')
              Destructive
          else
            Toast (js ''Name Required'') (js ''Please enter a name for this face'') Destructive])) \<and>
   (session s = Some sess \<and> currentDescriptorRef s = Some d \<and> trim (faceName s) \<noteq> [] \<longrightarrow>
      hd (snd (snd (handleSaveFace be s db)))
        = Request (auth_uid s) (Insert (session_user_id sess) (faceName s) (Array_from d)))"
  by (auto simp: handleSaveFace_def Let_def split: option.splits prod.splits)

theorem handleSaveFace_preconditions_witness:
  "trim (faceName (ann_signed_in\<lparr>faceName := js ''  ''\<rparr>)) = [] \<and>
   handleSaveFace supabase (ann_signed_in\<lparr>faceName := js ''  ''\<rparr>) db_ab =
     (ann_signed_in\<lparr>faceName := js ''  ''\<rparr>, db_ab,
      [Toast (js ''Name Required'') (js ''Please enter a name for this face'') Destructive]) \<and>
   currentDescriptorRef (ann_signed_in\<lparr>currentDescriptorRef := None\<rparr>) = None \<and>
   handleSaveFace supabase (ann_signed_in\<lparr>currentDescriptorRef := None\<rparr>) db_ab =
     (ann_signed_in\<lparr>currentDescriptorRef := None\<rparr>, db_ab,
      [Toast (js ''No Face Detected'') (js ''Please position your face in front of the camera'')
         Destructive]) \<and>
   session ann_signed_in = Some (Session 1) \<and>
   currentDescriptorRef ann_signed_in = Some [Number (1/2), Number (1/4), Number (1/8)] \<and>
   trim (faceName ann_signed_in) \<noteq> [] \<and>
   hd (snd (snd (handleSaveFace supabase ann_signed_in db_ab)))
     = Request (Some 1) (Insert 1 (js ''Ann'') [Number (1/2), Number (1/4), Number (1/8)])"
  using handleSaveFace_preconditions [where s = "ann_signed_in\<lparr>faceName := js ''  ''\<rparr>" and be = supabase and db = db_ab, THEN conjunct1]
    handleSaveFace_preconditions [where s = "ann_signed_in\<lparr>currentDescriptorRef := None\<rparr>" and be = supabase and db = db_ab, THEN conjunct1]
    handleSaveFace_preconditions [where s = ann_signed_in and sess = "Session 1" and d = "[Number (1/2), Number (1/4), Number (1/8)]" and be = supabase and db = db_ab, THEN conjunct2]
  by (simp add: sample_defs run_defs)

section \<open>Stopping the camera\<close>

text \<open>
  Claim C10. \<open>stopCamera\<close> stops every track of the stream in \<open>streamRef\<close> (none when
  there is no stream), clears \<open>streamRef\<close>, and puts \<open>isCameraOn\<close>, \<open>isDetecting\<close>,
  \<open>faceCount\<close>, \<open>currentEmotion\<close> and \<open>matchedFace\<close> back to their initial values;
  \<open>savedFaces\<close>, \<open>session\<close>, \<open>faceName\<close>, \<open>showSaveInput\<close> and
  \<open>currentDescriptorRef\<close> keep their values, as do \<open>isModelLoaded\<close> and the canvas.
\<close>

theorem stopCamera_resets_camera_state_only:
  "snd (stopCamera s) = (case streamRef s of None \<Rightarrow> [] | Some tracks \<Rightarrow> map TrackStop tracks) \<and>
   streamRef (fst (stopCamera s)) = None \<and>
   isCameraOn (fst (stopCamera s)) = isCameraOn initial_component \<and>
   isDetecting (fst (stopCamera s)) = isDetecting initial_component \<and>
   faceCount (fst (stopCamera s)) = faceCount initial_component \<and>
   currentEmotion (fst (stopCamera s)) = currentEmotion initial_component \<and>
   matchedFace (fst (stopCamera s)) = matchedFace initial_component \<and>
   savedFaces (fst (stopCamera s)) = savedFaces s \<and>
   session (fst (stopCamera s)) = session s \<and>
   faceName (fst (stopCamera s)) = faceName s \<and>
   showSaveInput (fst (stopCamera s)) = showSaveInput s \<and>
   currentDescriptorRef (fst (stopCamera s)) = currentDescriptorRef s \<and>
   isModelLoaded (fst (stopCamera s)) = isModelLoaded s \<and>
   canvasRef (fst (stopCamera s)) = canvasRef s"
  by (simp add: stopCamera_def initial_component_def Let_def)

theorem stopCamera_resets_camera_state_only_witness:
  "snd (stopCamera ann_signed_in) = [TrackStop 0] \<and>
   isCameraOn ann_signed_in \<and> \<not> isCameraOn (fst (stopCamera ann_signed_in)) \<and>
   currentEmotion (fst (stopCamera ann_signed_in)) = [] \<and>
   currentDescriptorRef (fst (stopCamera ann_signed_in)) = Some [Number (1/2), Number (1/4), Number (1/8)]"
  using stopCamera_resets_camera_state_only [of ann_signed_in]
  by (simp add: sample_defs)

section \<open>How errors reach the user\<close>

text \<open>
  Claim C6, as stated, fails: when loading the models fails with "TypeError: Failed to
  fetch", the only toast reads "Please refresh the page" and the error's message appears
  in no toast; when loading the saved faces fails, the error is written to the console and
  no toast is shown at all.
\<close>

theorem error_messages_not_all_shown_counterexample:
  "toast_descriptions (snd (loadModels (Some fetch_failed) initial_component))
     = [js ''Please refresh the page''] \<and>
   message fetch_failed \<notin> set (toast_descriptions (snd (loadModels (Some fetch_failed) initial_component))) \<and>
   snd (snd (loadSavedFaces offline ann_signed_in db_ab))
     = [Request (Some 1) (Select [Eq_user_id 1]), ConsoleError (js ''Error loading faces:'') fetch_failed] \<and>
   toast_descriptions (snd (snd (loadSavedFaces offline ann_signed_in db_ab))) = []"
  by (simp add: sample_defs run_defs)

text \<open>
  Claim C6, amended. A failure to save or to delete a face is logged and shown in a
  destructive toast whose description is the error's own message. A failure to load the
  models is logged and shown as the fixed text "Please refresh the page". A failure to load
  the saved faces is logged to the console and not shown. In each case the component state
  stays as it was.
\<close>

theorem error_reporting_per_operation:
  "loadModels (Some e) s =
     (s, [ConsoleError (js ''Error loading models:'') e,
          Toast (js ''Model Loading Failed'') (js ''Please refresh the page'') Destructive]) \<and>
   (session s = Some sess \<and>
    error (fst (be (auth_uid s) (Select [Eq_user_id (session_user_id sess)]) db)) = Some e \<longrightarrow>
      fst (loadSavedFaces be s db) = s \<and>
      snd (snd (loadSavedFaces be s db))
        = [Request (auth_uid s) (Select [Eq_user_id (session_user_id sess)]),
           ConsoleError (js ''Error loading faces:'') e]) \<and>
   (session s = Some sess \<and> currentDescriptorRef s = Some d \<and> trim (faceName s) \<noteq> [] \<and>
    error (fst (be (auth_uid s) (Insert (session_user_id sess) (faceName s) (Array_from d)) db)) = Some e \<longrightarrow>
      fst (handleSaveFace be s db) = s \<and>
      snd (snd (handleSaveFace be s db))
        = [Request (auth_uid s) (Insert (session_user_id sess) (faceName s) (Array_from d)),
           ConsoleError (js ''Error saving face:'') e,
           Toast (js ''Save Failed'') (message e) Destructive]) \<and>
   (error (fst (be (auth_uid s) (Delete [Eq_id i]) db)) = Some e \<longrightarrow>
      fst (handleDeleteFace be s db i) = s \<and>
      snd (snd (handleDeleteFace be s db i))
        = [Request (auth_uid s) (Delete [Eq_id i]),
           ConsoleError (js ''Error deleting face:'') e,
           Toast (js ''Delete Failed'') (message e) Destructive])"
  by (auto simp: loadModels_def loadSavedFaces_def handleSaveFace_def handleDeleteFace_def Let_def
           split: prod.splits)

theorem error_reporting_per_operation_witness:
  "session ann_signed_in = Some (Session 1) \<and>
   currentDescriptorRef ann_signed_in = Some [Number (1/2), Number (1/4), Number (1/8)] \<and>
   trim (faceName ann_signed_in) \<noteq> [] \<and>
   error (fst (offline (Some 1) (Select [Eq_user_id 1]) db_ab)) = Some fetch_failed \<and>
   error (fst (offline (Some 1) (Insert 1 (js ''Ann'') [Number (1/2), Number (1/4), Number (1/8)]) db_ab)) = Some fetch_failed \<and>
   error (fst (offline (Some 1) (Delete [Eq_id 10]) db_ab)) = Some fetch_failed \<and>
   toast_descriptions (snd (loadModels (Some fetch_failed) ann_signed_in)) = [js ''Please refresh the page''] \<and>
   toast_descriptions (snd (snd (loadSavedFaces offline ann_signed_in db_ab))) = [] \<and>
   toast_descriptions (snd (snd (handleSaveFace offline ann_signed_in db_ab))) = [js ''TypeError: Failed to fetch''] \<and>
   toast_descriptions (snd (snd (handleDeleteFace offline ann_signed_in db_ab 10))) = [js ''TypeError: Failed to fetch'']"
  using error_reporting_per_operation [where s = ann_signed_in and sess = "Session 1" and be = offline
      and db = db_ab and e = fetch_failed and d = "[Number (1/2), Number (1/4), Number (1/8)]" and i = 10]
  by (simp add: sample_defs run_defs)

section \<open>The requests of the client\<close>

lemma requests_simps [simp]:
  "requests [] = []"
  "requests (Request a q # evs) = (a, q) # requests evs"
  "requests (Toast t d v # evs) = requests evs"
  "requests (ConsoleError m e # evs) = requests evs"
  by (simp_all add: requests_def List.map_filter_simps)

lemma requests_append: "requests (xs @ ys) = requests xs @ requests ys"
  by (simp add: requests_def List.map_filter_def)

lemma requests_loadSavedFaces:
  "session s = Some (Session u) \<Longrightarrow>
   requests (snd (snd (loadSavedFaces be s db))) = [(Some u, Select [Eq_user_id u])]"
  by (auto simp: loadSavedFaces_def auth_uid_def Let_def split: prod.splits option.splits)

lemma faces_loadSavedFaces_supabase: "fst (snd (loadSavedFaces supabase s db)) = db"
  by (auto simp: loadSavedFaces_def supabase_def Let_def split: prod.splits option.splits)

lemma faces_handleDeleteFace_supabase:
  "faces (fst (snd (handleDeleteFace supabase s db i)))
     = table_delete permits (auth_uid s) (\<lambda>r. face_id r = i) (faces db)"
proof -
  have "fst (snd (handleDeleteFace supabase s db i))
          = fst (snd (loadSavedFaces supabase s (snd (supabase (auth_uid s) (Delete [Eq_id i]) db))))"
    by (auto simp: handleDeleteFace_def supabase_def Let_def split: prod.splits option.splits)
  then show ?thesis
    by (simp add: faces_loadSavedFaces_supabase) (simp add: supabase_def)
qed

lemma rows_of_delete_other:
  "a \<noteq> Some v \<Longrightarrow> rows_of v (table_delete permits a wh tbl) = rows_of v tbl"
  by (induction tbl) (auto simp: rows_of_def table_delete_def permits_iff)

text \<open>
  Claim C3, as stated, fails for the delete: the request \<open>handleDeleteFace\<close> sends names the
  row by its id alone. Sent by user 1 for row 11, which belongs to user 2, and run on the
  table without its policies, it removes that row: nothing on the client side ties the
  delete to the owner.
\<close>

theorem delete_scoped_by_row_id_only_counterexample:
  "requests (snd (snd (handleDeleteFace without_rls ann_signed_in db_ab 11)))
     = [(Some 1, Delete [Eq_id 11]), (Some 1, Select [Eq_user_id 1])] \<and>
   user_id row_b = 2 \<and> face_id row_b = 11 \<and>
   rows_of 2 (faces db_ab) = [row_b] \<and>
   rows_of 2 (faces (fst (snd (handleDeleteFace without_rls ann_signed_in db_ab 11)))) = []"
  by (simp add: sample_defs run_defs)

text \<open>
  Claim C3, amended. The client sends three kinds of request and no update. With a session
  of user \<open>u\<close>, all are sent under the identity \<open>u\<close>: the select is filtered on
  \<open>user_id = u\<close>, the insert stamps its row with \<open>user_id = u\<close>, and the delete is
  filtered on the row id only. It is the delete policy of the backend that keeps the delete
  to the rows of \<open>u\<close>: the rows of any other user are as before.
\<close>

theorem client_requests_and_owner_scope:
  "session s = Some (Session u) \<Longrightarrow>
     requests (snd (snd (loadSavedFaces be s db))) = [(Some u, Select [Eq_user_id u])] \<and>
     (currentDescriptorRef s = Some d \<and> trim (faceName s) \<noteq> [] \<longrightarrow>
        requests (snd (snd (handleSaveFace be s db)))
          \<in> {[(Some u, Insert u (faceName s) (Array_from d))],
              [(Some u, Insert u (faceName s) (Array_from d)), (Some u, Select [Eq_user_id u])]}) \<and>
     requests (snd (snd (handleDeleteFace be s db i)))
       \<in> {[(Some u, Delete [Eq_id i])], [(Some u, Delete [Eq_id i]), (Some u, Select [Eq_user_id u])]} \<and>
     (v \<noteq> u \<longrightarrow> rows_of v (faces (fst (snd (handleDeleteFace supabase s db i)))) = rows_of v (faces db))"
proof (intro conjI impI)
  assume s: "session s = Some (Session u)"
  then show "requests (snd (snd (loadSavedFaces be s db))) = [(Some u, Select [Eq_user_id u])]"
    by (rule requests_loadSavedFaces)
  have sel: "\<And>s' db'. session s' = session s \<Longrightarrow>
      requests (snd (snd (loadSavedFaces be s' db'))) = [(Some u, Select [Eq_user_id u])]"
    using s by (simp add: requests_loadSavedFaces)
  from s have a: "auth_uid s = Some u" by (simp add: auth_uid_def)
  show "requests (snd (snd (handleDeleteFace be s db i)))
       \<in> {[(Some u, Delete [Eq_id i])], [(Some u, Delete [Eq_id i]), (Some u, Select [Eq_user_id u])]}"
    using sel [of s] a
    by (auto simp: handleDeleteFace_def Let_def requests_append case_prod_beta split: option.splits)
  {
    assume "currentDescriptorRef s = Some d \<and> trim (faceName s) \<noteq> []"
    then show "requests (snd (snd (handleSaveFace be s db)))
          \<in> {[(Some u, Insert u (faceName s) (Array_from d))],
              [(Some u, Insert u (faceName s) (Array_from d)), (Some u, Select [Eq_user_id u])]}"
      using sel [of "s\<lparr>faceName := [], showSaveInput := False\<rparr>"] a s
      by (auto simp: handleSaveFace_def Let_def requests_append case_prod_beta split: option.splits)
  }
  {
    assume "v \<noteq> u"
    with a show "rows_of v (faces (fst (snd (handleDeleteFace supabase s db i)))) = rows_of v (faces db)"
      by (simp add: faces_handleDeleteFace_supabase rows_of_delete_other)
  }
qed

theorem client_requests_and_owner_scope_witness:
  "session ann_signed_in = Some (Session 1) \<and>
   currentDescriptorRef ann_signed_in = Some [Number (1/2), Number (1/4), Number (1/8)] \<and>
   trim (faceName ann_signed_in) \<noteq> [] \<and>
   requests (snd (snd (loadSavedFaces supabase ann_signed_in db_ab))) = [(Some 1, Select [Eq_user_id 1])] \<and>
   requests (snd (snd (handleSaveFace supabase ann_signed_in db_ab)))
     = [(Some 1, Insert 1 (js ''Ann'') [Number (1/2), Number (1/4), Number (1/8)]), (Some 1, Select [Eq_user_id 1])] \<and>
   requests (snd (snd (handleDeleteFace supabase ann_signed_in db_ab 11)))
     = [(Some 1, Delete [Eq_id 11]), (Some 1, Select [Eq_user_id 1])] \<and>
   (2::nat) \<noteq> 1 \<and>
   rows_of 2 (faces (fst (snd (handleDeleteFace supabase ann_signed_in db_ab 11)))) = [row_b] \<and>
   faces (fst (snd (handleDeleteFace supabase ann_signed_in db_ab 10))) = [row_b]"
  using client_requests_and_owner_scope [where s = ann_signed_in and u = 1 and be = supabase and db = db_ab
      and d = "[Number (1/2), Number (1/4), Number (1/8)]" and i = 11 and v = 2]
  by (simp add: sample_defs run_defs)

section \<open>The length of descriptors\<close>












section \<open>Saving a descriptor and reading it back\<close>

lemma ToNumber_JSON_number: "ToNumber (JSON_number x) = (if is_finite x then x else Number 0)"
  by (cases x) simp_all

lemma Float32Array_new_stored:
  "Float32Array_new (map JSON_number (Array_from d)) = map (\<lambda>x. if is_finite x then x else Number 0) d"
  by (simp add: Float32Array_new_def Array_from_def ToNumber_JSON_number)

lemma map_finite_id: "list_all is_finite d \<Longrightarrow> map (\<lambda>x. if is_finite x then x else Number 0) d = d"
  by (induction d) simp_all

lemma set_order_by_created_at_desc: "set (order_by_created_at_desc tie rows) = set rows"
  by (simp add: order_by_created_at_desc_def)

lemma handleSaveFace_supabase_saved:
  assumes "session s = Some (Session u)" and "currentDescriptorRef s = Some d"
    and "trim (faceName s) \<noteq> []"
    and "row = \<lparr>face_id = next_uuid db, user_id = u, name = faceName s,
                descriptor = map JSON_number (Array_from d), image_url = None,
                created_at = now db, updated_at = now db\<rparr>"
  shows "faces (fst (snd (handleSaveFace supabase s db))) = faces db @ [row]"
    and "set (savedFaces (fst (handleSaveFace supabase s db))) = set (rows_of u (faces db @ [row]))"
  using assms
  by (auto simp: handleSaveFace_def loadSavedFaces_def supabase_def Let_def auth_uid_def
        table_insert_def table_select_def permits_iff rows_of_def set_order_by_created_at_desc)

text \<open>
  Claim C4, as stated, fails on an entry that is not finite: a descriptor with the entries
  1/2, NaN and Infinity is stored as the JSON array of 1/2, null and null, and the vector
  the matcher is given for it has the entries 1/2, 0 and 0.
\<close>

theorem non_finite_entries_come_back_zero_counterexample:
  "currentDescriptorRef (ann_signed_in\<lparr>currentDescriptorRef := Some [Number (1/2), NaN, PosInfinity]\<rparr>)
     = Some [Number (1/2), NaN, PosInfinity] \<and>
   map descriptor
     (savedFaces (fst (handleSaveFace supabase
        (ann_signed_in\<lparr>currentDescriptorRef := Some [Number (1/2), NaN, PosInfinity]\<rparr>) db_ab)))
     = [[JNumber (1/2), JNull, JNull], [JNumber (1/2), JNumber (1/4)]] \<and>
   labelledDescriptors
     (savedFaces (fst (handleSaveFace supabase
        (ann_signed_in\<lparr>currentDescriptorRef := Some [Number (1/2), NaN, PosInfinity]\<rparr>) db_ab)))
     = [(js ''Ann'', [[Number (1/2), Number 0, Number 0]]),
        (js ''Ann'', [[Number (1/2), Number (1/4)]])] \<and>
   [Number (1/2), Number 0, Number 0] \<noteq> [Number (1/2), NaN, PosInfinity]"
  by (simp add: sample_defs run_defs)

text \<open>
  Claim C4, amended. When \<open>handleSaveFace\<close> saves the captured descriptor \<open>d\<close>, the row
  added to the table holds the entry-by-entry copy of \<open>d\<close> as JSON, and that row is among
  the faces loaded back. The vector built from it for the matcher has the entries of \<open>d\<close>
  in the same order, with 0 in the place of every entry that is NaN or an infinity. So the
  vector the matcher uses equals the one the model produced for every descriptor whose
  entries are all finite.
\<close>

theorem descriptor_round_trip:
  "session s = Some (Session u) \<Longrightarrow> currentDescriptorRef s = Some d \<Longrightarrow>
   trim (faceName s) \<noteq> [] \<Longrightarrow>
   row = \<lparr>face_id = next_uuid db, user_id = u, name = faceName s,
          descriptor = map JSON_number (Array_from d), image_url = None,
          created_at = now db, updated_at = now db\<rparr> \<Longrightarrow>
     faces (fst (snd (handleSaveFace supabase s db))) = faces db @ [row] \<and>
     row \<in> set (savedFaces (fst (handleSaveFace supabase s db))) \<and>
     (faceName s, [map (\<lambda>x. if is_finite x then x else Number 0) d])
       \<in> set (labelledDescriptors (savedFaces (fst (handleSaveFace supabase s db)))) \<and>
     Float32Array_new (descriptor row) = map (\<lambda>x. if is_finite x then x else Number 0) d \<and>
     (list_all is_finite d \<longrightarrow> Float32Array_new (descriptor row) = d)"
proof -
  assume a: "session s = Some (Session u)" "currentDescriptorRef s = Some d"
    "trim (faceName s) \<noteq> []"
    and r: "row = \<lparr>face_id = next_uuid db, user_id = u, name = faceName s,
          descriptor = map JSON_number (Array_from d), image_url = None,
          created_at = now db, updated_at = now db\<rparr>"
  have new: "Float32Array_new (descriptor row) = map (\<lambda>x. if is_finite x then x else Number 0) d"
    using r by (simp add: Float32Array_new_stored)
  have tbl: "faces (fst (snd (handleSaveFace supabase s db))) = faces db @ [row]"
    using a r by (rule handleSaveFace_supabase_saved(1))
  have "set (savedFaces (fst (handleSaveFace supabase s db))) = set (rows_of u (faces db @ [row]))"
    using a r by (rule handleSaveFace_supabase_saved(2))
  then have mem: "row \<in> set (savedFaces (fst (handleSaveFace supabase s db)))"
    using r by (simp add: rows_of_def)
  have "(name row, [Float32Array_new (descriptor row)])
          \<in> set (labelledDescriptors (savedFaces (fst (handleSaveFace supabase s db))))"
    using mem by (force simp: labelledDescriptors_def)
  then have lab: "(faceName s, [map (\<lambda>x. if is_finite x then x else Number 0) d])
       \<in> set (labelledDescriptors (savedFaces (fst (handleSaveFace supabase s db))))"
    using new r by simp
  show ?thesis
    using tbl mem lab new by (simp add: map_finite_id)
qed

theorem descriptor_round_trip_witness:
  "session ann_signed_in = Some (Session 1) \<and>
   currentDescriptorRef ann_signed_in = Some [Number (1/2), Number (1/4), Number (1/8)] \<and>
   trim (faceName ann_signed_in) \<noteq> [] \<and>
   list_all is_finite [Number (1/2), Number (1/4), Number (1/8)] \<and>
   faces (fst (snd (handleSaveFace supabase ann_signed_in db_ab)))
     = [row_a, row_b,
        \<lparr>face_id = 12, user_id = 1, name = js ''Ann'',
         descriptor = [JNumber (1/2), JNumber (1/4), JNumber (1/8)], image_url = None,
         created_at = 9, updated_at = 9\<rparr>] \<and>
   labelledDescriptors (savedFaces (fst (handleSaveFace supabase ann_signed_in db_ab)))
     = [(js ''Ann'', [[Number (1/2), Number (1/4), Number (1/8)]]),
        (js ''Ann'', [[Number (1/2), Number (1/4)]])]"
  using descriptor_round_trip [where s = ann_signed_in and u = 1 and db = db_ab
      and d = "[Number (1/2), Number (1/4), Number (1/8)]", OF _ _ _ refl]
  by (simp add: sample_defs run_defs)

section \<open>The match label along a loop\<close>

lemma processEmotionAndMatch_label:
  "matchedFace (fst (processEmotionAndMatch fbm c s resized)) \<noteq> [] \<Longrightarrow>
   matchedFace s \<noteq> [] \<or> (savedFaces c \<noteq> [] \<and> session c \<noteq> None)"
  by (auto simp: processEmotionAndMatch_def Let_def split: list.splits option.splits if_splits)

lemma detectFaces_label:
  "matchedFace (fst (detectFaces rz fbm c s f)) \<noteq> [] \<Longrightarrow>
   matchedFace s \<noteq> [] \<or> (savedFaces c \<noteq> [] \<and> session c \<noteq> None)"
proof -
  assume m: "matchedFace (fst (detectFaces rz fbm c s f)) \<noteq> []"
  have "\<And>cv resized. matchedFace (fst (processEmotionAndMatch fbm c (s\<lparr>canvasRef := cv\<rparr>) resized)) \<noteq> []
          \<Longrightarrow> matchedFace s \<noteq> [] \<or> (savedFaces c \<noteq> [] \<and> session c \<noteq> None)"
    using processEmotionAndMatch_label [where s = "s\<lparr>canvasRef := cv\<rparr>" for cv] by simp
  with m show ?thesis
    by (auto simp: detectFaces_def Let_def case_prod_beta split: option.splits if_splits)
qed

lemma detectLoop_label:
  "matchedFace (fst (detectLoop rz fbm c s fs)) \<noteq> [] \<Longrightarrow>
   matchedFace s \<noteq> [] \<or> (savedFaces c \<noteq> [] \<and> session c \<noteq> None)"
proof (induction fs arbitrary: s)
  case Nil
  then show ?case by simp
next
  case (Cons f fs)
  show ?case
  proof (cases "RequestAnimationFrame \<in> set (snd (detectFaces rz fbm c s f))")
    case True
    with Cons.prems have "matchedFace (fst (detectLoop rz fbm c (fst (detectFaces rz fbm c s f)) fs)) \<noteq> []"
      by (simp add: case_prod_beta)
    then have "matchedFace (fst (detectFaces rz fbm c s f)) \<noteq> [] \<or> (savedFaces c \<noteq> [] \<and> session c \<noteq> None)"
      by (rule Cons.IH)
    then show ?thesis using detectFaces_label by blast
  next
    case False
    with Cons.prems have "matchedFace (fst (detectFaces rz fbm c s f)) \<noteq> []"
      by (simp add: case_prod_beta)
    then show ?thesis by (rule detectFaces_label)
  qed
qed

lemma detectFaces_through:
  assumes "RequestAnimationFrame \<in> set (snd (detectFaces rz fbm c s (Some ds)))"
    and "videoRef s = Some v" and "rz ds (videoWidth v, videoHeight v) = Some resized"
  shows "\<exists>cv. fst (detectFaces rz fbm c s (Some ds)) =
            (fst (processEmotionAndMatch fbm c (s\<lparr>canvasRef := Some cv\<rparr>) resized))\<lparr>faceCount := length ds\<rparr> \<and>
            snd (snd (processEmotionAndMatch fbm c (s\<lparr>canvasRef := Some cv\<rparr>) resized))"
  using assms
  by (auto simp: detectFaces_def Let_def case_prod_beta processEmotionAndMatch_events
           split: option.splits if_splits)

text \<open>
  Claim C9. Take a loop that starts with an empty match label, as the label is initially
  and after \<open>stopCamera\<close>, and any frame of it whose call runs to its end. If the frame has
  a detection and the label is then non-empty, a session exists, at least one face is
  saved, and the label is the one the matcher returns for the first detection against the
  stored descriptors at threshold 0.6, which is not "unknown". With a session and a saved
  face the label is set from the matcher's answer. If the frame has no detection, the
  emotion, the match label and the current descriptor are cleared.
\<close>

theorem match_label_on_loop:
  "matchedFace s0 = [] \<Longrightarrow> s1 = fst (detectLoop rz fbm c s0 fs) \<Longrightarrow> videoRef s1 = Some v \<Longrightarrow>
   rz ds (videoWidth v, videoHeight v) = Some resized \<Longrightarrow>
   RequestAnimationFrame \<in> set (snd (detectFaces rz fbm c s1 (Some ds))) \<Longrightarrow>
   s2 = fst (detectFaces rz fbm c s1 (Some ds)) \<Longrightarrow>
     (resized \<noteq> [] \<and> matchedFace s2 \<noteq> [] \<longrightarrow>
        session c \<noteq> None \<and> savedFaces c \<noteq> [] \<and>
        fbm (labelledDescriptors (savedFaces c)) (6 / 10) (det_descriptor (hd resized))
          = Some (matchedFace s2) \<and>
        matchedFace s2 \<noteq> js ''unknown'') \<and>
     (resized \<noteq> [] \<and> session c \<noteq> None \<and> savedFaces c \<noteq> [] \<longrightarrow>
        (\<exists>label. fbm (labelledDescriptors (savedFaces c)) (6 / 10) (det_descriptor (hd resized))
                    = Some label \<and>
                 matchedFace s2 = (if label \<noteq> js ''unknown'' then label else []))) \<and>
     (resized = [] \<longrightarrow>
        currentEmotion s2 = [] \<and> matchedFace s2 = [] \<and> currentDescriptorRef s2 = None)"
proof -
  assume start: "matchedFace s0 = []" and s1: "s1 = fst (detectLoop rz fbm c s0 fs)"
    and v: "videoRef s1 = Some v" and rz: "rz ds (videoWidth v, videoHeight v) = Some resized"
    and raf: "RequestAnimationFrame \<in> set (snd (detectFaces rz fbm c s1 (Some ds)))"
    and s2: "s2 = fst (detectFaces rz fbm c s1 (Some ds))"
  from start s1 have inv: "matchedFace s1 \<noteq> [] \<longrightarrow> savedFaces c \<noteq> [] \<and> session c \<noteq> None"
    using detectLoop_label [of rz fbm c s0 fs] by auto
  from detectFaces_through [OF raf v rz] s2 obtain cv where
    st: "s2 = (fst (processEmotionAndMatch fbm c (s1\<lparr>canvasRef := Some cv\<rparr>) resized))\<lparr>faceCount := length ds\<rparr>"
    and thr: "snd (snd (processEmotionAndMatch fbm c (s1\<lparr>canvasRef := Some cv\<rparr>) resized))"
    by auto
  show ?thesis
  proof (cases resized)
    case Nil
    with st show ?thesis by (simp add: processEmotionAndMatch_def)
  next
    case (Cons d rest)
    show ?thesis
    proof (cases "savedFaces c \<noteq> [] \<and> session c \<noteq> None")
      case True
      with Cons st thr show ?thesis
        by (auto simp: processEmotionAndMatch_def Let_def split: option.splits if_splits)
    next
      case False
      from False Cons st have "matchedFace s2 = matchedFace s1"
        by (auto simp: processEmotionAndMatch_def Let_def)
      moreover from inv False have "matchedFace s1 = []" by blast
      ultimately have e: "matchedFace s2 = []" by simp
      from False have g: "\<not> (resized \<noteq> [] \<and> session c \<noteq> None \<and> savedFaces c \<noteq> [])"
        by blast
      from Cons have n: "resized \<noteq> []" by simp
      show ?thesis
        using e g n by blast
    qed
  qed
qed

theorem match_label_on_loop_witness:
  "matchedFace ann_with_faces = [] \<and>
   videoRef (fst (detectLoop same_size exact_matcher ann_with_faces ann_with_faces [Some [det_ann], Some []]))
     = Some \<lparr>srcObject = Some [0], videoWidth = 640, videoHeight = 480\<rparr> \<and>
   same_size [det_ann] (640, 480) = Some [det_ann] \<and>
   RequestAnimationFrame
     \<in> set (snd (detectFaces same_size exact_matcher ann_with_faces
                    (fst (detectLoop same_size exact_matcher ann_with_faces ann_with_faces
                            [Some [det_ann], Some []]))
                    (Some [det_ann]))) \<and>
   matchedFace (fst (detectFaces same_size exact_matcher ann_with_faces
                    (fst (detectLoop same_size exact_matcher ann_with_faces ann_with_faces
                            [Some [det_ann], Some []]))
                    (Some [det_ann]))) = js ''Ann'' \<and>
   exact_matcher (labelledDescriptors (savedFaces ann_with_faces)) (6 / 10) (det_descriptor det_ann)
     = Some (js ''Ann'') \<and>
   matchedFace (fst (detectLoop same_size exact_matcher ann_with_faces ann_with_faces [Some [det_ann]]))
     = js ''Ann'' \<and>
   same_size [] (640, 480) = Some [] \<and>
   matchedFace (fst (detectFaces same_size exact_matcher ann_with_faces
                    (fst (detectLoop same_size exact_matcher ann_with_faces ann_with_faces
                            [Some [det_ann]]))
                    (Some []))) = [] \<and>
   currentDescriptorRef (fst (detectFaces same_size exact_matcher ann_with_faces
                    (fst (detectLoop same_size exact_matcher ann_with_faces ann_with_faces
                            [Some [det_ann]]))
                    (Some []))) = None"
  using match_label_on_loop [where ?s0.0 = ann_with_faces and c = ann_with_faces and rz = same_size
      and fbm = exact_matcher and fs = "[Some [det_ann], Some []]" and ds = "[det_ann]"
      and resized = "[det_ann]"
      and v = "\<lparr>srcObject = Some [0], videoWidth = 640, videoHeight = 480\<rparr>", OF _ refl _ _ _ refl]
    match_label_on_loop [where ?s0.0 = ann_with_faces and c = ann_with_faces and rz = same_size
      and fbm = exact_matcher and fs = "[Some [det_ann]]" and ds = "[]" and resized = "[]"
      and v = "\<lparr>srcObject = Some [0], videoWidth = 640, videoHeight = 480\<rparr>", OF _ refl _ _ _ refl]
  by (simp add: sample_defs run_defs)

section \<open>The loop started from the camera button\<close>

lemma detectFaces_camera_off: "\<not> isCameraOn c \<Longrightarrow> detectFaces rz fbm c s f = (s, [])"
  by (simp add: detectFaces_def split: option.splits)

lemma detectLoop_camera_off: "\<not> isCameraOn c \<Longrightarrow> detectLoop rz fbm c s fs = (s, [])"
  by (cases fs) (simp_all add: detectFaces_camera_off)

lemma startDetection_camera_off:
  "\<not> isCameraOn c \<Longrightarrow> snd (startDetection rz fbm c s fs) = []"
  by (simp add: startDetection_def detectLoop_camera_off)

lemma startCamera_events:
  "set (fst (snd (startCamera s got)))
     \<subseteq> {ConsoleError (js ''Error accessing camera:'') e | e. True}
       \<union> {Toast (js ''Camera Access Denied'') (js ''Please allow camera access'') Destructive}"
  by (auto simp: startCamera_def split: sum.splits option.splits)

text \<open>
  With the camera on, a closure that reads \<open>isCameraOn\<close> as true does what claim C5
  describes: the detection call, the strokes of the detected face, the next frame.
\<close>

lemma detectFaces_camera_on_example:
  "snd (detectFaces same_size exact_matcher ann_with_faces ann_with_faces (Some [det_ann])) =
     [DetectAllFaces, MatchDimensions 640 480, ClearRect 0 0 640 480, ResizeResults,
      FindBestMatch [(js ''Ann'', [[Number (1/2), Number (1/4)]])] (6/10) [Number (1/2), Number (1/4)]]
     @ map Draw (drawBox \<lparr>box_x = 100, box_y = 50, box_width = 200, box_height = 220\<rparr>)
     @ [RequestAnimationFrame]"
  by (simp add: sample_defs run_defs)

text \<open>
  Claim C5 says that every iteration of the loop calls the library, draws and asks for the
  next frame. On the code, no call that \<open>toggleCamera\<close> leads to does any of the three,
  whatever the stream, the library and the frames are. \<open>toggleCamera\<close> starts the camera
  only in a render whose \<open>isCameraOn\<close> is false; the \<open>detectFaces\<close> that this render's
  \<open>startDetection\<close> creates reads that same \<open>isCameraOn\<close>, so its first call returns at
  its first check and there is no second call.
\<close>

theorem toggleCamera_never_detects:
  "DetectAllFaces \<notin> set (snd (toggleCamera rz fbm s got frames)) \<and>
   Draw stroke \<notin> set (snd (toggleCamera rz fbm s got frames)) \<and>
   RequestAnimationFrame \<notin> set (snd (toggleCamera rz fbm s got frames))"
proof (cases "isCameraOn s")
  case True
  then show ?thesis
    by (auto simp: toggleCamera_def stopCamera_def Let_def split: option.splits)
next
  case False
  then have "snd (toggleCamera rz fbm s got frames) = fst (snd (startCamera s got))"
    by (simp add: toggleCamera_def Let_def case_prod_beta startDetection_camera_off)
  then show ?thesis
    using startCamera_events [of s got] by auto
qed

theorem toggleCamera_never_detects_witness:
  "\<not> isCameraOn ann_camera_off \<and>
   toggleCamera same_size exact_matcher ann_camera_off (Inr [0]) [Some [det_ann], Some [det_ann]]
     = (ann_camera_off\<lparr>videoRef := Some \<lparr>srcObject = Some [0], videoWidth = 640, videoHeight = 480\<rparr>,
          streamRef := Some [0], isCameraOn := True, isDetecting := True\<rparr>, []) \<and>
   DetectAllFaces
     \<notin> set (snd (toggleCamera same_size exact_matcher ann_camera_off (Inr [0])
                   [Some [det_ann], Some [det_ann]]))"
  using toggleCamera_never_detects [where rz = same_size and fbm = exact_matcher and s = ann_camera_off
      and got = "Inr [0]" and frames = "[Some [det_ann], Some [det_ann]]" and stroke = Stroke]
  by (simp add: sample_defs run_defs)

end
